theory Spec2Isabelle
  imports Main
begin

section \<open>JavaScript values\<close>

text \<open>
  The provider of \<^verbatim>\<open>src/provider/rpc.ts\<close> handles untyped values (\<^verbatim>\<open>any\<close>): decoded
  response envelopes, receipts and whatever a promise rejects with. They are modelled by
  one datatype. A number is an integer-valued JavaScript number of magnitude at most
  \<open>2^53 - 1\<close> (a safe integer), the range in which \<^verbatim>\<open>Number::toString\<close> is the exact
  decimal rendering. An object is its list of own properties, read through \<open>map_of\<close>.
  An instance of \<^verbatim>\<open>Error\<close> is kept apart from a plain object, since the poller tests
  \<^verbatim>\<open>instanceof Error\<close>: it carries its \<^verbatim>\<open>name\<close>, its \<^verbatim>\<open>message\<close> and the properties
  assigned to it afterwards.
\<close>

datatype js_value =
    JUndefined
  | JNull
  | JBool bool
  | JNum int
  | JStr string
  | JArr "js_value list"
  | JObj "(string \<times> js_value) list"
  | JError string string "(string \<times> js_value) list"

text \<open>A computation that may throw: \<open>Inl\<close> carries the thrown value.\<close>

type_synonym 'a result = "js_value + 'a"

text \<open>\<^verbatim>\<open>new Error(message)\<close> and the \<^verbatim>\<open>TypeError\<close> of reading a property of
  \<^verbatim>\<open>null\<close> or \<^verbatim>\<open>undefined\<close> (its message text depends on the engine).\<close>

definition newError :: "string \<Rightarrow> js_value" where
  "newError message = JError ''Error'' message []"

definition propertyTypeError :: js_value where
  "propertyTypeError = JError ''TypeError'' ''Cannot read properties of null or undefined'' []"

fun nullish :: "js_value \<Rightarrow> bool" where
  "nullish JUndefined = True"
| "nullish JNull = True"
| "nullish _ = False"

text \<open>ToBoolean, as applied by \<^verbatim>\<open>if (error)\<close> and \<^verbatim>\<open>retries || 200\<close>.\<close>

fun truthy :: "js_value \<Rightarrow> bool" where
  "truthy JUndefined = False"
| "truthy JNull = False"
| "truthy (JBool b) = b"
| "truthy (JNum n) = (n \<noteq> 0)"
| "truthy (JStr s) = (s \<noteq> [])"
| "truthy (JArr _) = True"
| "truthy (JObj _) = True"
| "truthy (JError _ _ _) = True"

text \<open>
  Reading property \<open>k\<close> of a value that is neither \<^verbatim>\<open>null\<close> nor \<^verbatim>\<open>undefined\<close>. The
  names this program reads (\<^verbatim>\<open>error\<close>, \<^verbatim>\<open>result\<close>, \<^verbatim>\<open>code\<close>, \<^verbatim>\<open>message\<close>,
  \<^verbatim>\<open>response\<close>, \<^verbatim>\<open>data\<close>, \<^verbatim>\<open>status\<close>) are no properties of a primitive or of an array,
  so those yield \<^verbatim>\<open>undefined\<close>.
\<close>

fun getProp :: "js_value \<Rightarrow> string \<Rightarrow> js_value" where
  "getProp (JObj props) k = (case map_of props k of None \<Rightarrow> JUndefined | Some v \<Rightarrow> v)"
| "getProp (JError name message props) k =
     (if k = ''message'' then JStr message
      else if k = ''name'' then JStr name
      else case map_of props k of None \<Rightarrow> JUndefined | Some v \<Rightarrow> v)"
| "getProp _ k = JUndefined"

text \<open>\<^verbatim>\<open>v.k\<close>, which throws on \<^verbatim>\<open>null\<close> and \<^verbatim>\<open>undefined\<close>, and \<^verbatim>\<open>v?.k\<close>, which does not.\<close>

definition readProp :: "js_value \<Rightarrow> string \<Rightarrow> js_value result" where
  "readProp v k = (if nullish v then Inl propertyTypeError else Inr (getProp v k))"

definition optChain :: "js_value \<Rightarrow> string \<Rightarrow> js_value" where
  "optChain v k = (if nullish v then JUndefined else getProp v k)"

text \<open>A value that is an object (\<^verbatim>\<open>typeof v === 'object'\<close> and not \<^verbatim>\<open>null\<close>).\<close>

fun isObject :: "js_value \<Rightarrow> bool" where
  "isObject (JArr _) = True"
| "isObject (JObj _) = True"
| "isObject (JError _ _ _) = True"
| "isObject _ = False"

text \<open>\<^verbatim>\<open>error instanceof Error\<close>.\<close>

fun instanceofError :: "js_value \<Rightarrow> bool" where
  "instanceofError (JError _ _ _) = True"
| "instanceofError _ = False"

text \<open>\<^verbatim>\<open>xs.includes(v)\<close> for an array of strings \<open>xs\<close>: only an equal string is found.\<close>

fun array_includes :: "string list \<Rightarrow> js_value \<Rightarrow> bool" where
  "array_includes xs (JStr s) = (s \<in> set xs)"
| "array_includes xs _ = False"

subsection \<open>ToString, as applied by a template literal\<close>

text \<open>
  An array is joined with commas, \<^verbatim>\<open>null\<close> and \<^verbatim>\<open>undefined\<close> elements being empty. A
  plain object, which defines no \<^verbatim>\<open>toString\<close> and no \<^verbatim>\<open>valueOf\<close> of its own, is
  \<^verbatim>\<open>[object Object]\<close>. An error is rendered by \<^verbatim>\<open>Error.prototype.toString\<close>.
\<close>

definition digitChar :: "nat \<Rightarrow> char" where
  "digitChar d = ''0123456789'' ! d"

fun showNat :: "nat \<Rightarrow> string" where
  "showNat n = (if n < 10 then [digitChar n] else showNat (n div 10) @ [digitChar (n mod 10)])"

declare showNat.simps [simp del]

definition showInt :: "int \<Rightarrow> string" where
  "showInt i = (if i < 0 then CHR ''-'' # showNat (nat (- i)) else showNat (nat i))"

fun join :: "string \<Rightarrow> string list \<Rightarrow> string" where
  "join sep [] = []"
| "join sep [x] = x"
| "join sep (x # y # ys) = x @ sep @ join sep (y # ys)"

fun ToString :: "js_value \<Rightarrow> string" where
  "ToString JUndefined = ''undefined''"
| "ToString JNull = ''null''"
| "ToString (JBool b) = (if b then ''true'' else ''false'')"
| "ToString (JNum n) = showInt n"
| "ToString (JStr s) = s"
| "ToString (JArr xs) = join '','' (map (\<lambda>x. if nullish x then [] else ToString x) xs)"
| "ToString (JObj _) = ''[object Object]''"
| "ToString (JError name message _) =
     (if name = [] then message else if message = [] then name else name @ '': '' @ message)"

section \<open>The outside world\<close>

text \<open>
  A call has two effects: it sends requests to the node and it suspends the caller
  (\<^verbatim>\<open>wait\<close>). Both are recorded, in order, in the trace of the world. The node, the
  serialiser \<^verbatim>\<open>stringify\<close> of \<^verbatim>\<open>utils/json\<close> and the receipt parser of
  \<^verbatim>\<open>utils/responseParser/rpc\<close> are not part of \<^verbatim>\<open>rpc.ts\<close>: they are parameters. The
  node answers a request as a function of everything that happened before it, so it may
  answer the same request differently each time.
\<close>

record request =
  url :: string
  http_method :: string
  body :: string
  headers :: "(string \<times> string) list"

datatype event = Sent request | Slept int

record world =
  trace :: "event list"

text \<open>What \<^verbatim>\<open>fetch\<close> resolves with: a response whose \<^verbatim>\<open>json()\<close> resolves with the
  decoded body or rejects (a body that is not JSON).\<close>

datatype response = Response (json: "js_value result")

record env =
  stringify :: "js_value \<Rightarrow> string"
  node :: "event list \<Rightarrow> request \<Rightarrow> response result"
  parseGetTransactionReceiptResponse :: "js_value \<Rightarrow> js_value result"

text \<open>
  Modelled from the spec: \<^verbatim>\<open>wait\<close> of \<^verbatim>\<open>utils/provider\<close> is not among the
  sources. Section 4.3 of the specification has each iteration suspend for the interval:
  \<^verbatim>\<open>wait(delay)\<close> suspends the caller for \<open>delay\<close> milliseconds and does nothing else.
\<close>

definition wait :: "int \<Rightarrow> world \<Rightarrow> world" where
  "wait delay w = w\<lparr>trace := trace w @ [Slept delay]\<rparr>"

section \<open>The provider\<close>

record RpcProviderOptions =
  opt_nodeUrl :: string
  opt_retries :: "int option"

text \<open>The fields \<^verbatim>\<open>nodeUrl\<close> and \<^verbatim>\<open>retries\<close> of the class. The number of
  retries is taken to be an integer.\<close>

record RpcProvider =
  nodeUrl :: string
  retries :: int

text \<open>\<^verbatim>\<open>fetch(method, params)\<close>, lines 59-65: one POST to the node. The value handed to
  \<^verbatim>\<open>stringify\<close> is \<^verbatim>\<open>{ method, jsonrpc: '2.0', params, id: 0 }\<close>, with whatever the
  caller passed as \<^verbatim>\<open>params\<close>.\<close>

definition fetch_payload :: "js_value \<Rightarrow> js_value \<Rightarrow> js_value" where
  "fetch_payload method params =
     JObj [(''method'', method), (''jsonrpc'', JStr ''2.0''), (''params'', params),
           (''id'', JNum 0)]"

definition fetch_request :: "env \<Rightarrow> RpcProvider \<Rightarrow> js_value \<Rightarrow> js_value \<Rightarrow> request" where
  "fetch_request e p method params =
     \<lparr>url = nodeUrl p,
      http_method = ''POST'',
      body = stringify e (fetch_payload method params),
      headers = [(''Content-Type'', ''application/json'')]\<rparr>"

definition fetch ::
  "env \<Rightarrow> RpcProvider \<Rightarrow> js_value \<Rightarrow> js_value \<Rightarrow> world \<Rightarrow> response result \<times> world" where
  "fetch e p method params w =
     (let req = fetch_request e p method params
      in (node e (trace w) req, w\<lparr>trace := trace w @ [Sent req]\<rparr>))"

text \<open>\<^verbatim>\<open>errorHandler(error)\<close>, lines 67-72.\<close>

definition errorHandler :: "js_value \<Rightarrow> unit result" where
  "errorHandler error =
     (if truthy error
      then Inl (newError (ToString (getProp error ''code'') @ '': '' @
                          ToString (getProp error ''message'')))
      else Inr ())"

text \<open>
  \<^verbatim>\<open>fetchEndpoint(method, params)\<close>, lines 74-87. \<open>tried\<close> is the \<^verbatim>\<open>try\<close> block: the
  exchange, the decoding, the destructuring of the envelope (a \<^verbatim>\<open>TypeError\<close> when the
  body decodes to \<^verbatim>\<open>null\<close>) and the error handler. Whatever it throws, the handler's own
  error included, reaches the \<^verbatim>\<open>catch\<close> block, which runs the error handler on
  \<^verbatim>\<open>error?.response?.data\<close> and then rethrows. An absent \<^verbatim>\<open>params\<close> is \<^verbatim>\<open>undefined\<close>.
\<close>

definition fetchEndpoint ::
  "env \<Rightarrow> RpcProvider \<Rightarrow> string \<Rightarrow> js_value \<Rightarrow> world \<Rightarrow> js_value result \<times> world" where
  "fetchEndpoint e p method params w =
     (let (rawResult, w') = fetch e p (JStr method) params w;
          tried =
            (case rawResult of
               Inl thrown \<Rightarrow> Inl thrown
             | Inr resp \<Rightarrow>
                 (case json resp of
                    Inl thrown \<Rightarrow> Inl thrown
                  | Inr envelope \<Rightarrow>
                      if nullish envelope then Inl propertyTypeError
                      else (case errorHandler (getProp envelope ''error'') of
                              Inl thrown \<Rightarrow> Inl thrown
                            | Inr _ \<Rightarrow> Inr (getProp envelope ''result''))))
      in (case tried of
            Inr result \<Rightarrow> Inr result
          | Inl error \<Rightarrow>
              (case errorHandler (optChain (optChain error ''response'') ''data'') of
                 Inl thrown \<Rightarrow> Inl thrown
               | Inr _ \<Rightarrow> Inl error),
          w'))"

text \<open>\<^verbatim>\<open>getChainId()\<close>, lines 90-92: no \<^verbatim>\<open>params\<close> argument.\<close>

definition getChainId :: "env \<Rightarrow> RpcProvider \<Rightarrow> world \<Rightarrow> js_value result \<times> world" where
  "getChainId e p w = fetchEndpoint e p ''starknet_chainId'' JUndefined w"

text \<open>
  The constructor, lines 49-57. The option \<^verbatim>\<open>retries\<close> is a number or absent
  (\<^verbatim>\<open>undefined\<close>), and \<^verbatim>\<open>retries || 200\<close> keeps it when it is truthy. The constructor
  starts \<^verbatim>\<open>getChainId()\<close> without awaiting it: the request leaves during construction,
  the answer is stored in \<^verbatim>\<open>chainId\<close> at some later time. No method modelled here reads
  \<^verbatim>\<open>chainId\<close>, so the answer is dropped.
\<close>

definition RpcProvider_constructor ::
  "env \<Rightarrow> RpcProviderOptions \<Rightarrow> world \<Rightarrow> RpcProvider \<times> world" where
  "RpcProvider_constructor e optionsOrProvider w =
     (let this = \<lparr>nodeUrl = opt_nodeUrl optionsOrProvider,
                  retries = (case opt_retries optionsOrProvider of
                               None \<Rightarrow> 200
                             | Some r \<Rightarrow> if truthy (JNum r) then r else 200)\<rparr>
      in (this, snd (getChainId e this w)))"

text \<open>\<^verbatim>\<open>getTransactionReceipt(txHash)\<close>, lines 179-183: the parser runs on a fulfilled
  call only, and may throw itself.\<close>

definition getTransactionReceipt ::
  "env \<Rightarrow> RpcProvider \<Rightarrow> string \<Rightarrow> world \<Rightarrow> js_value result \<times> world" where
  "getTransactionReceipt e p txHash w =
     (let (r, w') = fetchEndpoint e p ''starknet_getTransactionReceipt''
                      (JObj [(''transaction_hash'', JStr txHash)]) w
      in (case r of
            Inl thrown \<Rightarrow> Inl thrown
          | Inr res \<Rightarrow> parseGetTransactionReceiptResponse e res,
          w'))"

subsection \<open>Block references\<close>

datatype BlockTag = latest | pending

datatype BlockReference = Tag BlockTag | Height nat | Hash string

fun tagString :: "BlockTag \<Rightarrow> string" where
  "tagString latest = ''latest''"
| "tagString pending = ''pending''"

text \<open>
  Modelled from the spec: the class \<^verbatim>\<open>Block\<close> of \<^verbatim>\<open>provider/utils\<close> and its getter
  \<^verbatim>\<open>identifier\<close> are not among the sources. This is \<^verbatim>\<open>resolve\<close> of section 4.1 of
  the specification: a tag is its literal string, a height \<open>n\<close> is
  \<^verbatim>\<open>{block_number: n}\<close>, a hash \<open>h\<close> is \<^verbatim>\<open>{block_hash: h}\<close>.
\<close>

fun Block_identifier :: "BlockReference \<Rightarrow> js_value" where
  "Block_identifier (Tag t) = JStr (tagString t)"
| "Block_identifier (Height n) = JObj [(''block_number'', JNum (int n))]"
| "Block_identifier (Hash h) = JObj [(''block_hash'', JStr h)]"

text \<open>\<^verbatim>\<open>getBlockWithTxHashes(blockIdentifier = 'pending')\<close>, lines 105-110.\<close>

definition getBlockWithTxHashes ::
  "env \<Rightarrow> RpcProvider \<Rightarrow> BlockReference option \<Rightarrow> world \<Rightarrow> js_value result \<times> world" where
  "getBlockWithTxHashes e p blockIdentifier w =
     (let block = (case blockIdentifier of None \<Rightarrow> Tag pending | Some b \<Rightarrow> b)
      in fetchEndpoint e p ''starknet_getBlockWithTxHashes''
           (JObj [(''block_id'', Block_identifier block)]) w)"

subsection \<open>Waiting for a transaction\<close>

definition successStates :: "string list" where
  "successStates = [''ACCEPTED_ON_L1'', ''ACCEPTED_ON_L2'', ''PENDING'']"

definition errorStates :: "string list" where
  "errorStates = [''REJECTED'', ''NOT_RECEIVED'']"

text \<open>
  One iteration of the loop of \<^verbatim>\<open>waitForTransaction\<close>, lines 307-334, entered with
  the value \<open>remaining\<close> of the local \<^verbatim>\<open>retries\<close>. It ends by throwing out of the function, or by reaching
  \<^verbatim>\<open>retries -= 1\<close> with the new values of \<^verbatim>\<open>retries\<close> and \<^verbatim>\<open>onchain\<close>.
  \<open>tried\<close> is the \<^verbatim>\<open>try\<close> block (its value is the \<^verbatim>\<open>onchain\<close> it leaves), \<open>caught\<close>
  adds the \<^verbatim>\<open>catch\<close> block.
\<close>

datatype iteration = Throw js_value | Next int bool

definition loopBody ::
  "env \<Rightarrow> RpcProvider \<Rightarrow> string \<Rightarrow> int \<Rightarrow> int \<Rightarrow> world \<Rightarrow> iteration \<times> world" where
  "loopBody e p txHash retryInterval remaining w =
     (let w1 = wait retryInterval w;
          (r, w2) = getTransactionReceipt e p txHash w1;
          tried =
            (case r of
               Inl thrown \<Rightarrow> Inl thrown
             | Inr res \<Rightarrow>
                 (case readProp res ''status'' of
                    Inl thrown \<Rightarrow> Inl thrown
                  | Inr status \<Rightarrow>
                      if array_includes successStates status then Inr True
                      else if array_includes errorStates status
                      then Inl (JError ''Error'' (ToString status) [(''response'', res)])
                      else Inr False));
          caught =
            (case tried of
               Inr onchain \<Rightarrow> Inr onchain
             | Inl error \<Rightarrow>
                 if instanceofError error \<and> array_includes errorStates (getProp error ''message'')
                 then Inl error
                 else if remaining = 0
                 then Inl (newError ''waitForTransaction timedout with retries'')
                 else Inr False)
      in (case caught of
            Inl thrown \<Rightarrow> (Throw thrown, w2)
          | Inr onchain \<Rightarrow> (Next (remaining - 1) onchain, w2)))"

text \<open>
  The loop \<^verbatim>\<open>while (!onchain)\<close>, lines 306-335. Nothing in the source bounds the number
  of iterations, so the model takes fuel: \<open>None\<close> says that the loop is still running
  after \<open>fuel\<close> iterations. A loop that ends yields what it threw, or the final value of
  the local \<^verbatim>\<open>retries\<close>.
\<close>

fun waitLoop ::
  "nat \<Rightarrow> env \<Rightarrow> RpcProvider \<Rightarrow> string \<Rightarrow> int \<Rightarrow> int \<Rightarrow> bool \<Rightarrow> world \<Rightarrow> (int result \<times> world) option"
  where
  "waitLoop fuel e p txHash retryInterval remaining True w = Some (Inr remaining, w)"
| "waitLoop 0 e p txHash retryInterval remaining False w = None"
| "waitLoop (Suc fuel) e p txHash retryInterval remaining False w =
     (case loopBody e p txHash retryInterval remaining w of
        (Throw thrown, w') \<Rightarrow> Some (Inl thrown, w')
      | (Next remaining' onchain, w') \<Rightarrow> waitLoop fuel e p txHash retryInterval remaining' onchain w')"

text \<open>
  \<^verbatim>\<open>waitForTransaction(txHash, retryInterval = 8000)\<close>, lines 302-338. The function has
  no \<^verbatim>\<open>return\<close> statement: when the loop ends normally it suspends once more and resolves
  with \<^verbatim>\<open>undefined\<close>.
\<close>

definition waitForTransaction ::
  "nat \<Rightarrow> env \<Rightarrow> RpcProvider \<Rightarrow> string \<Rightarrow> int option \<Rightarrow> world \<Rightarrow> (js_value result \<times> world) option"
  where
  "waitForTransaction fuel e p txHash retryIntervalArg w =
     (let retryInterval = (case retryIntervalArg of None \<Rightarrow> 8000 | Some ms \<Rightarrow> ms)
      in (case waitLoop fuel e p txHash retryInterval (retries p) False w of
            None \<Rightarrow> None
          | Some (Inl thrown, w') \<Rightarrow> Some (Inl thrown, w')
          | Some (Inr _, w') \<Rightarrow> Some (Inr JUndefined, wait retryInterval w')))"

declare waitLoop.simps [simp del]

text \<open>
  The state of a session that is still waiting after \<open>k\<close> iterations: the local
  \<^verbatim>\<open>retries\<close> and the world, when each of the \<open>k\<close> iterations reached
  \<^verbatim>\<open>retries -= 1\<close> with \<^verbatim>\<open>onchain\<close> still false.
\<close>

fun loopStateAfter ::
  "nat \<Rightarrow> env \<Rightarrow> RpcProvider \<Rightarrow> string \<Rightarrow> int \<Rightarrow> int \<Rightarrow> world \<Rightarrow> (int \<times> world) option" where
  "loopStateAfter 0 e p txHash retryInterval remaining w = Some (remaining, w)"
| "loopStateAfter (Suc k) e p txHash retryInterval remaining w =
     (case loopBody e p txHash retryInterval remaining w of
        (Next remaining' False, w') \<Rightarrow> loopStateAfter k e p txHash retryInterval remaining' w'
      | _ \<Rightarrow> None)"

text \<open>The request that \<^verbatim>\<open>getTransactionReceipt\<close> sends.\<close>

definition receiptRequest :: "env \<Rightarrow> RpcProvider \<Rightarrow> string \<Rightarrow> request" where
  "receiptRequest e p txHash =
     fetch_request e p (JStr ''starknet_getTransactionReceipt'')
       (JObj [(''transaction_hash'', JStr txHash)])"

text \<open>A receipt whose \<^verbatim>\<open>status\<close> is in neither list of \<^verbatim>\<open>waitForTransaction\<close>: the
  transaction is neither accepted nor rejected yet.\<close>

definition nonTerminal :: "js_value \<Rightarrow> bool" where
  "nonTerminal res =
     (\<not> nullish res \<and> \<not> array_includes successStates (getProp res ''status'')
      \<and> \<not> array_includes errorStates (getProp res ''status''))"

section \<open>Example environments\<close>

text \<open>
  Concrete instances of the parameters, on which the theorems below are exercised: a node
  that always answers with the same envelope, one that always refuses the connection, one
  whose body cannot be decoded, one that answers a list of envelopes in turn, a parser that leaves the receipt as it
  is. The serialiser of the examples is a stand-in; no statement depends on it.
\<close>

definition example_env :: "(event list \<Rightarrow> request \<Rightarrow> response result) \<Rightarrow> env" where
  "example_env reply =
     \<lparr>stringify = ToString, node = reply, parseGetTransactionReceiptResponse = Inr\<rparr>"

definition answers :: "js_value \<Rightarrow> event list \<Rightarrow> request \<Rightarrow> response result" where
  "answers envelope tr req = Inr (Response (Inr envelope))"

definition rejects :: "js_value \<Rightarrow> event list \<Rightarrow> request \<Rightarrow> response result" where
  "rejects thrown tr req = Inl thrown"

definition garbles :: "js_value \<Rightarrow> event list \<Rightarrow> request \<Rightarrow> response result" where
  "garbles thrown tr req = Inr (Response (Inl thrown))"

fun isSent :: "event \<Rightarrow> bool" where
  "isSent (Sent _) = True"
| "isSent (Slept _) = False"

definition answers_in_turn ::
  "js_value list \<Rightarrow> js_value \<Rightarrow> event list \<Rightarrow> request \<Rightarrow> response result" where
  "answers_in_turn envelopes final tr req =
     (let k = length (filter isSent tr)
      in Inr (Response (Inr (if k < length envelopes then envelopes ! k else final))))"

definition envelope_result :: "js_value \<Rightarrow> js_value" where
  "envelope_result v = JObj [(''jsonrpc'', JStr ''2.0''), (''id'', JNum 0), (''result'', v)]"

definition envelope_error :: "int \<Rightarrow> string \<Rightarrow> js_value" where
  "envelope_error code message =
     JObj [(''jsonrpc'', JStr ''2.0''), (''id'', JNum 0),
           (''error'', JObj [(''code'', JNum code), (''message'', JStr message)])]"

definition receipt :: "string \<Rightarrow> js_value" where
  "receipt status = JObj [(''transaction_hash'', JStr ''0x1''), (''status'', JStr status)]"

text \<open>Two ways for the exchange to fail: the error a failed \<^verbatim>\<open>fetch\<close> rejects with,
  and an error that carries a \<^verbatim>\<open>response.data\<close> object.\<close>

definition networkFailure :: js_value where
  "networkFailure = JError ''TypeError'' ''Failed to fetch'' []"

definition failureWithData :: "int \<Rightarrow> string \<Rightarrow> js_value" where
  "failureWithData code message =
     JError ''Error'' ''Request failed''
       [(''response'',
         JObj [(''data'', JObj [(''code'', JNum code), (''message'', JStr message)])])]"

definition example_provider :: "int \<Rightarrow> RpcProvider" where
  "example_provider r = \<lparr>nodeUrl = ''http://localhost:9545'', retries = r\<rparr>"

definition world0 :: world where
  "world0 = \<lparr>trace = []\<rparr>"

section \<open>The dispatcher and the loop, step by step\<close>

lemma fetchEndpoint_world:
  "snd (fetchEndpoint e p meth args w) =
     w\<lparr>trace := trace w @ [Sent (fetch_request e p (JStr meth) args)]\<rparr>"
  by (simp add: fetchEndpoint_def fetch_def Let_def split: prod.splits)

lemma getTransactionReceipt_world:
  "snd (getTransactionReceipt e p txHash w) =
     w\<lparr>trace := trace w @ [Sent (receiptRequest e p txHash)]\<rparr>"
  by (simp add: getTransactionReceipt_def receiptRequest_def split_beta fetchEndpoint_world)

lemma loopBody_world:
  "snd (loopBody e p txHash retryInterval remaining w) =
     w\<lparr>trace := trace w @ [Slept retryInterval, Sent (receiptRequest e p txHash)]\<rparr>"
  by (simp add: loopBody_def Let_def split_beta getTransactionReceipt_world wait_def
           split: sum.splits)

lemma loopBody_nonterminal:
  assumes "fst (getTransactionReceipt e p txHash (wait retryInterval w)) = Inr res"
    and "\<not> nullish res"
    and "\<not> array_includes successStates (getProp res ''status'')"
    and "\<not> array_includes errorStates (getProp res ''status'')"
  shows "fst (loopBody e p txHash retryInterval remaining w) = Next (remaining - 1) False"
  using assms
  by (simp add: loopBody_def Let_def readProp_def split_beta)

lemma loopBody_success:
  assumes "fst (getTransactionReceipt e p txHash (wait retryInterval w)) = Inr res"
    and "array_includes successStates (getProp res ''status'')"
  shows "fst (loopBody e p txHash retryInterval remaining w) = Next (remaining - 1) True"
proof -
  from assms(2) have "\<not> nullish res" by (cases res) simp_all
  with assms show ?thesis
    by (simp add: loopBody_def Let_def readProp_def split_beta)
qed

lemma loopBody_failure:
  assumes "fst (getTransactionReceipt e p txHash (wait retryInterval w)) = Inr res"
    and "getProp res ''status'' = JStr status"
    and "status \<in> set errorStates"
  shows "fst (loopBody e p txHash retryInterval remaining w) =
           Throw (JError ''Error'' status [(''response'', res)])"
proof -
  from assms(2) have "\<not> nullish res" by (cases res) simp_all
  moreover from assms(3) have "status \<notin> set successStates"
    by (auto simp add: errorStates_def successStates_def)
  ultimately show ?thesis using assms
    by (simp add: loopBody_def Let_def readProp_def split_beta)
qed

lemma loopBody_transient:
  assumes "fst (getTransactionReceipt e p txHash (wait retryInterval w)) = Inl thrown"
    and "\<not> (instanceofError thrown \<and> array_includes errorStates (getProp thrown ''message''))"
  shows "fst (loopBody e p txHash retryInterval remaining w) =
           (if remaining = 0 then Throw (newError ''waitForTransaction timedout with retries'')
            else Next (remaining - 1) False)"
  using assms
  by (auto simp add: loopBody_def Let_def split_beta)

lemma waitLoop_Suc:
  "waitLoop (Suc fuel) e p txHash ri remaining False w =
     (case fst (loopBody e p txHash ri remaining w) of
        Throw thrown \<Rightarrow> Some (Inl thrown, snd (loopBody e p txHash ri remaining w))
      | Next remaining' onchain \<Rightarrow>
          waitLoop fuel e p txHash ri remaining' onchain (snd (loopBody e p txHash ri remaining w)))"
  by (simp add: waitLoop.simps split_beta split: iteration.splits)

lemma waitLoop_nonterminal_forever:
  assumes "\<And>w'. case fst (getTransactionReceipt e p txHash w') of
                   Inl thrown \<Rightarrow> False | Inr res \<Rightarrow> nonTerminal res"
  shows "waitLoop fuel e p txHash ri remaining False w = None"
proof (induction fuel arbitrary: remaining w)
  case 0
  show ?case by (simp add: waitLoop.simps)
next
  case (Suc fuel)
  from assms [of "wait ri w"] obtain res
    where res: "fst (getTransactionReceipt e p txHash (wait ri w)) = Inr res" "nonTerminal res"
    by (auto split: sum.splits)
  from res(2) have "\<not> nullish res"
    and "\<not> array_includes successStates (getProp res ''status'')"
    and "\<not> array_includes errorStates (getProp res ''status'')"
    by (simp_all add: nonTerminal_def)
  with res(1) have "fst (loopBody e p txHash ri remaining w) = Next (remaining - 1) False"
    by (rule loopBody_nonterminal)
  then show ?case
    by (simp only: waitLoop_Suc iteration.case Suc.IH)
qed

lemma waitLoop_fuel_mono:
  "waitLoop fuel e p txHash ri remaining onchain w = Some out \<Longrightarrow>
   waitLoop (fuel + extra) e p txHash ri remaining onchain w = Some out"
proof (induction fuel arbitrary: remaining onchain w)
  case 0
  then show ?case by (cases onchain) (simp_all add: waitLoop.simps)
next
  case (Suc fuel)
  show ?case
  proof (cases onchain)
    case True
    with Suc.prems show ?thesis by (simp add: waitLoop.simps)
  next
    case False
    with Suc.prems Suc.IH show ?thesis
      by (auto simp add: waitLoop.simps split_beta split: iteration.splits prod.splits)
  qed
qed

lemma waitLoop_transient_timeout:
  assumes "\<And>w'. fst (getTransactionReceipt e p txHash w') = Inl thrown"
    and "\<not> (instanceofError thrown \<and> array_includes errorStates (getProp thrown ''message''))"
  shows "waitLoop (Suc k + fuel) e p txHash ri (int k) False w =
           Some (Inl (newError ''waitForTransaction timedout with retries''),
                 w\<lparr>trace := trace w @
                      concat (replicate (Suc k) [Slept ri, Sent (receiptRequest e p txHash)])\<rparr>)"
proof (induction k arbitrary: w)
  case 0
  have "fst (loopBody e p txHash ri 0 w) =
          Throw (newError ''waitForTransaction timedout with retries'')"
    using loopBody_transient [where remaining = 0, OF assms(1) assms(2)] by simp
  then show ?case
    by (simp add: waitLoop_Suc loopBody_world)
next
  case (Suc k)
  have "fst (loopBody e p txHash ri (int (Suc k)) w) = Next (int k) False"
    using loopBody_transient [where remaining = "int (Suc k)", OF assms(1) assms(2)] by simp
  then have "waitLoop (Suc (Suc k) + fuel) e p txHash ri (int (Suc k)) False w =
      waitLoop (Suc k + fuel) e p txHash ri (int k) False
        (w\<lparr>trace := trace w @ [Slept ri, Sent (receiptRequest e p txHash)]\<rparr>)"
    by (simp add: waitLoop_Suc loopBody_world)
  also have "\<dots> = Some (Inl (newError ''waitForTransaction timedout with retries''),
      w\<lparr>trace := trace w @ [Slept ri, Sent (receiptRequest e p txHash)]\<rparr>
       \<lparr>trace := trace (w\<lparr>trace := trace w @ [Slept ri, Sent (receiptRequest e p txHash)]\<rparr>) @
          concat (replicate (Suc k) [Slept ri, Sent (receiptRequest e p txHash)])\<rparr>)"
    by (rule Suc.IH)
  finally show ?case
    by simp
qed

lemma fetchEndpoint_decoded:
  assumes "node e (trace w) (fetch_request e p (JStr meth) args) = Inr (Response (Inr envelope))"
    and "\<not> nullish envelope"
  shows "fst (fetchEndpoint e p meth args w) =
     (if truthy (getProp envelope ''error'')
      then Inl (newError (ToString (getProp (getProp envelope ''error'') ''code'') @ '': '' @
                          ToString (getProp (getProp envelope ''error'') ''message'')))
      else Inr (getProp envelope ''result''))"
  using assms
  by (simp add: fetchEndpoint_def fetch_def Let_def errorHandler_def newError_def optChain_def)

lemma fetchEndpoint_failed:
  assumes "node e (trace w) (fetch_request e p (JStr meth) args) = Inl thrown
         \<or> node e (trace w) (fetch_request e p (JStr meth) args) = Inr (Response (Inl thrown))"
  shows "fst (fetchEndpoint e p meth args w) =
     (if truthy (optChain (optChain thrown ''response'') ''data'')
      then Inl (newError
             (ToString (getProp (optChain (optChain thrown ''response'') ''data'') ''code'') @
              '': '' @
              ToString (getProp (optChain (optChain thrown ''response'') ''data'') ''message'')))
      else Inl thrown)"
  using assms
  by (auto simp add: fetchEndpoint_def fetch_def Let_def errorHandler_def)

lemma getTransactionReceipt_answers:
  "fst (getTransactionReceipt (example_env (answers (envelope_result r))) p txHash w) = Inr r"
  by (simp add: getTransactionReceipt_def fetchEndpoint_def fetch_def Let_def split_beta
        example_env_def answers_def envelope_result_def errorHandler_def)

lemma getTransactionReceipt_rejects:
  "fst (getTransactionReceipt (example_env (rejects networkFailure)) p txHash w) =
     Inl networkFailure"
  by (simp add: getTransactionReceipt_def fetchEndpoint_def fetch_def Let_def split_beta
        example_env_def rejects_def networkFailure_def errorHandler_def optChain_def)

lemma nonTerminal_RECEIVED: "nonTerminal (receipt ''RECEIVED'')"
  by (simp add: nonTerminal_def receipt_def successStates_def errorStates_def)

lemma waitLoop_after:
  "loopStateAfter k e p txHash ri r0 w0 = Some (r, w) \<Longrightarrow>
   waitLoop (k + n) e p txHash ri r0 False w0 = waitLoop n e p txHash ri r False w"
proof (induction k arbitrary: r0 w0)
  case 0
  then show ?case by simp
next
  case (Suc k)
  from Suc.prems obtain r1 w1
    where body: "loopBody e p txHash ri r0 w0 = (Next r1 False, w1)"
      and rest: "loopStateAfter k e p txHash ri r1 w1 = Some (r, w)"
    by (auto split: prod.splits iteration.splits bool.splits)
  from body have "waitLoop (Suc (k + n)) e p txHash ri r0 False w0 =
                    waitLoop (k + n) e p txHash ri r1 False w1"
    by (simp add: waitLoop_Suc)
  with Suc.IH [OF rest] show ?case by simp
qed

lemma loopBody_RECEIVED:
  "loopBody (example_env (answers (envelope_result (receipt ''RECEIVED'')))) p txHash ri r w =
     (Next (r - 1) False,
      w\<lparr>trace := trace w @
         [Slept ri,
          Sent (receiptRequest (example_env (answers (envelope_result (receipt ''RECEIVED''))))
                  p txHash)]\<rparr>)"
proof -
  let ?e = "example_env (answers (envelope_result (receipt ''RECEIVED'')))"
  have "fst (loopBody ?e p txHash ri r w) = Next (r - 1) False"
    using nonTerminal_RECEIVED
    by (intro loopBody_nonterminal [OF getTransactionReceipt_answers])
       (simp_all add: nonTerminal_def)
  then show ?thesis
    using loopBody_world [of ?e p txHash ri r w] by (simp add: prod_eq_iff)
qed

section \<open>The endpoint dispatcher\<close>

text \<open>
  Claim C8, as the code has it. Every call of \<^verbatim>\<open>fetchEndpoint\<close>, whatever its outcome,
  adds exactly one request to the trace: a POST to the node URL whose body is the
  serialisation of \<^verbatim>\<open>{method, jsonrpc: '2.0', params, id: 0}\<close>, with the header
  \<^verbatim>\<open>Content-Type: application/json\<close>. The member \<^verbatim>\<open>params\<close> is the argument of the
  call as it is: an object for \<^verbatim>\<open>getTransactionReceipt\<close> and
  \<^verbatim>\<open>getBlockWithTxHashes\<close>, \<^verbatim>\<open>undefined\<close> for \<^verbatim>\<open>getChainId\<close>, which passes none.
  Nothing is cached: a second identical call sends the request again, and its outcome is
  the one of a call made in the world that the first call left.
\<close>

theorem C8_one_request_per_call:
  "snd (fetchEndpoint e p meth args w) =
     w\<lparr>trace := trace w @
        [Sent \<lparr>url = nodeUrl p,
               http_method = ''POST'',
               body = stringify e
                 (JObj [(''method'', JStr meth), (''jsonrpc'', JStr ''2.0''),
                        (''params'', args), (''id'', JNum 0)]),
               headers = [(''Content-Type'', ''application/json'')]\<rparr>]\<rparr>
   \<and> trace (snd (fetchEndpoint e p meth args (snd (fetchEndpoint e p meth args w)))) =
       trace w @ [Sent (fetch_request e p (JStr meth) args),
                  Sent (fetch_request e p (JStr meth) args)]
   \<and> fst (fetchEndpoint e p meth args (snd (fetchEndpoint e p meth args w))) =
       fst (fetchEndpoint e p meth args
              (w\<lparr>trace := trace w @ [Sent (fetch_request e p (JStr meth) args)]\<rparr>))
   \<and> getProp (fetch_payload (JStr meth) args) ''params'' = args
   \<and> getProp (fetch_payload (JStr meth) args) ''id'' = JNum 0
   \<and> getProp (fetch_payload (JStr meth) args) ''jsonrpc'' = JStr ''2.0''
   \<and> getProp (fetch_payload (JStr meth) args) ''method'' = JStr meth
   \<and> snd (getTransactionReceipt e p txHash w) =
       w\<lparr>trace := trace w @
          [Sent (fetch_request e p (JStr ''starknet_getTransactionReceipt'')
                   (JObj [(''transaction_hash'', JStr txHash)]))]\<rparr>
   \<and> snd (getBlockWithTxHashes e p blockIdentifier w) =
       w\<lparr>trace := trace w @
          [Sent (fetch_request e p (JStr ''starknet_getBlockWithTxHashes'')
                   (JObj [(''block_id'',
                           Block_identifier (case blockIdentifier of
                                               None \<Rightarrow> Tag pending | Some b \<Rightarrow> b))]))]\<rparr>
   \<and> snd (getChainId e p w) =
       w\<lparr>trace := trace w @ [Sent (fetch_request e p (JStr ''starknet_chainId'') JUndefined)]\<rparr>"
proof -
  have "snd (getTransactionReceipt e p txHash w) =
       w\<lparr>trace := trace w @
          [Sent (fetch_request e p (JStr ''starknet_getTransactionReceipt'')
                   (JObj [(''transaction_hash'', JStr txHash)]))]\<rparr>"
    using getTransactionReceipt_world [of e p txHash w] by (simp add: receiptRequest_def)
  then show ?thesis
    by (simp add: fetchEndpoint_world getBlockWithTxHashes_def getChainId_def)
       (simp add: fetch_request_def fetch_payload_def)
qed

text \<open>
  Claim C8 as stated fails: the request that \<^verbatim>\<open>getChainId\<close> sends, and that every
  construction of a provider therefore sends, is the serialisation of a value whose
  \<^verbatim>\<open>params\<close> is \<^verbatim>\<open>undefined\<close>, not an object.
\<close>

theorem C8_params_undefined_counterexample:
  "snd (getChainId (example_env (answers (envelope_result (JStr ''0x534e5f474f45524c49''))))
          (example_provider 200) world0) =
     \<lparr>trace =
        [Sent \<lparr>url = ''http://localhost:9545'',
               http_method = ''POST'',
               body = stringify (example_env (answers (envelope_result (JStr ''0x534e5f474f45524c49''))))
                 (fetch_payload (JStr ''starknet_chainId'') JUndefined),
               headers = [(''Content-Type'', ''application/json'')]\<rparr>]\<rparr>
   \<and> snd (RpcProvider_constructor
            (example_env (answers (envelope_result (JStr ''0x534e5f474f45524c49''))))
            \<lparr>opt_nodeUrl = ''http://localhost:9545'', opt_retries = Some 200\<rparr> world0) =
     \<lparr>trace =
        [Sent \<lparr>url = ''http://localhost:9545'',
               http_method = ''POST'',
               body = stringify (example_env (answers (envelope_result (JStr ''0x534e5f474f45524c49''))))
                 (fetch_payload (JStr ''starknet_chainId'') JUndefined),
               headers = [(''Content-Type'', ''application/json'')]\<rparr>]\<rparr>
   \<and> getProp (fetch_payload (JStr ''starknet_chainId'') JUndefined) ''params'' = JUndefined
   \<and> \<not> isObject (getProp (fetch_payload (JStr ''starknet_chainId'') JUndefined) ''params'')"
  by (simp add: getChainId_def RpcProvider_constructor_def fetchEndpoint_world fetch_request_def
        example_provider_def world0_def)
     (simp add: fetch_payload_def)

text \<open>
  Claim C7. When the decoded envelope is an object with a \<^verbatim>\<open>result\<close> \<open>X\<close> and no
  \<^verbatim>\<open>error\<close>, the call returns \<open>X\<close> itself, after its one request.
\<close>

theorem C7_result_returned_unchanged:
  assumes "node e (trace w) (fetch_request e p (JStr meth) args) =
             Inr (Response (Inr (JObj props)))"
    and "map_of props ''error'' = None"
    and "map_of props ''result'' = Some X"
  shows "fetchEndpoint e p meth args w =
           (Inr X, w\<lparr>trace := trace w @ [Sent (fetch_request e p (JStr meth) args)]\<rparr>)"
proof -
  have "fst (fetchEndpoint e p meth args w) = Inr X"
    using fetchEndpoint_decoded [OF assms(1)] assms(2,3) by simp
  then show ?thesis
    using fetchEndpoint_world [of e p meth args w] by (simp add: prod_eq_iff)
qed

text \<open>
  C7 at a node that answers \<^verbatim>\<open>{jsonrpc: "2.0", id: 0, result: ["0xabc", 7]}\<close>.
\<close>

theorem C7_result_returned_unchanged_witness:
  "fetchEndpoint (example_env (answers (envelope_result (JArr [JStr ''0xabc'', JNum 7]))))
     (example_provider 200) ''starknet_pendingTransactions'' JUndefined world0 =
   (Inr (JArr [JStr ''0xabc'', JNum 7]),
    \<lparr>trace = [Sent (fetch_request
        (example_env (answers (envelope_result (JArr [JStr ''0xabc'', JNum 7]))))
        (example_provider 200) (JStr ''starknet_pendingTransactions'') JUndefined)]\<rparr>)"
  using C7_result_returned_unchanged
    [of "example_env (answers (envelope_result (JArr [JStr ''0xabc'', JNum 7])))" world0
        "example_provider 200" "''starknet_pendingTransactions''" JUndefined
        "[(''jsonrpc'', JStr ''2.0''), (''id'', JNum 0), (''result'', JArr [JStr ''0xabc'', JNum 7])]"
        "JArr [JStr ''0xabc'', JNum 7]"]
  by (simp add: example_env_def answers_def envelope_result_def world0_def)

text \<open>
  Claim C6. When the decoded envelope carries an \<^verbatim>\<open>error\<close> object with a \<^verbatim>\<open>code\<close>
  and a \<^verbatim>\<open>message\<close>, the call fails with an \<^verbatim>\<open>Error\<close> whose message is the
  rendering of the code, a colon and a space, and the rendering of the message. When the
  \<^verbatim>\<open>error\<close> field is absent or \<^verbatim>\<open>null\<close>, the call succeeds with the \<^verbatim>\<open>result\<close>
  field.
\<close>

theorem C6_node_error_message:
  assumes "node e (trace w) (fetch_request e p (JStr meth) args) =
             Inr (Response (Inr (JObj props)))"
  shows "(map_of props ''error'' = Some (JObj err) \<and> map_of err ''code'' = Some code
            \<and> map_of err ''message'' = Some message
          \<longrightarrow> fst (fetchEndpoint e p meth args w) =
                Inl (newError (ToString code @ '': '' @ ToString message))
              \<and> getProp (newError (ToString code @ '': '' @ ToString message)) ''message'' =
                JStr (ToString code @ '': '' @ ToString message))
       \<and> (map_of props ''error'' = None \<or> map_of props ''error'' = Some JNull
          \<longrightarrow> fst (fetchEndpoint e p meth args w) = Inr (getProp (JObj props) ''result''))"
  using fetchEndpoint_decoded [OF assms]
  by (auto simp add: newError_def)

text \<open>
  C6 at the error \<^verbatim>\<open>{code: 21, message: "Invalid params"}\<close>, whose message is
  \<^verbatim>\<open>21: Invalid params\<close>, and at an envelope whose \<^verbatim>\<open>error\<close> is \<^verbatim>\<open>null\<close>.
\<close>

theorem C6_node_error_message_witness:
  "fst (fetchEndpoint (example_env (answers (envelope_error 21 ''Invalid params'')))
          (example_provider 200) ''starknet_getNonce'' (JObj [(''contract_address'', JStr ''0x1'')])
          world0) = Inl (newError ''21: Invalid params'')
   \<and> getProp (newError ''21: Invalid params'') ''message'' = JStr ''21: Invalid params''
   \<and> fst (fetchEndpoint (example_env (answers (JObj [(''error'', JNull), (''result'', JStr ''0x5'')])))
          (example_provider 200) ''starknet_getNonce'' (JObj [(''contract_address'', JStr ''0x1'')])
          world0) = Inr (JStr ''0x5'')"
proof -
  have digits: "showInt 21 = ''21''"
    by (simp add: showInt_def showNat.simps digitChar_def)
  show ?thesis
    using C6_node_error_message
      [where e = "example_env (answers (envelope_error 21 ''Invalid params''))"
         and w = world0 and p = "example_provider 200" and meth = "''starknet_getNonce''"
         and args = "JObj [(''contract_address'', JStr ''0x1'')]"
         and props = "[(''jsonrpc'', JStr ''2.0''), (''id'', JNum 0),
                       (''error'', JObj [(''code'', JNum 21), (''message'', JStr ''Invalid params'')])]"
         and err = "[(''code'', JNum 21), (''message'', JStr ''Invalid params'')]"
         and code = "JNum 21" and message = "JStr ''Invalid params''"]
      C6_node_error_message
      [where e = "example_env (answers (JObj [(''error'', JNull), (''result'', JStr ''0x5'')]))"
         and w = world0 and p = "example_provider 200" and meth = "''starknet_getNonce''"
         and args = "JObj [(''contract_address'', JStr ''0x1'')]"
         and props = "[(''error'', JNull), (''result'', JStr ''0x5'')]"]
    by (simp add: example_env_def answers_def envelope_error_def world0_def digits)
qed

text \<open>
  Claim C2, as the code has it. When the exchange itself fails (\<^verbatim>\<open>fetch\<close> rejects, or
  the body cannot be decoded) with a thrown value, the \<^verbatim>\<open>catch\<close> block first runs the
  error handler on \<^verbatim>\<open>error?.response?.data\<close>. If that is falsy, as for an error
  without a \<^verbatim>\<open>response\<close> property, the call fails with the thrown value itself. If it
  is truthy, the call fails with a new \<^verbatim>\<open>Error\<close> built from the \<^verbatim>\<open>code\<close> and
  \<^verbatim>\<open>message\<close> of that data, in the form of a node-reported error.
\<close>

theorem C2_transport_failure_rethrown:
  assumes "node e (trace w) (fetch_request e p (JStr meth) args) = Inl thrown
         \<or> node e (trace w) (fetch_request e p (JStr meth) args) = Inr (Response (Inl thrown))"
  shows "fetchEndpoint e p meth args w =
     (if truthy (optChain (optChain thrown ''response'') ''data'')
      then Inl (newError
             (ToString (getProp (optChain (optChain thrown ''response'') ''data'') ''code'') @
              '': '' @
              ToString (getProp (optChain (optChain thrown ''response'') ''data'') ''message'')))
      else Inl thrown,
      w\<lparr>trace := trace w @ [Sent (fetch_request e p (JStr meth) args)]\<rparr>)"
  using fetchEndpoint_failed [OF assms] fetchEndpoint_world [of e p meth args w]
  by (simp add: prod_eq_iff)

text \<open>
  C2 at a refused connection and at an undecodable body, both failing with the
  \<^verbatim>\<open>TypeError\<close> that was thrown.
\<close>

theorem C2_transport_failure_rethrown_witness:
  "fetchEndpoint (example_env (rejects networkFailure)) (example_provider 200)
      ''starknet_chainId'' JUndefined world0 =
     (Inl networkFailure,
      \<lparr>trace = [Sent (fetch_request (example_env (rejects networkFailure)) (example_provider 200)
                         (JStr ''starknet_chainId'') JUndefined)]\<rparr>)
   \<and> fetchEndpoint (example_env (garbles networkFailure))
      (example_provider 200) ''starknet_chainId'' JUndefined world0 =
     (Inl networkFailure,
      \<lparr>trace = [Sent (fetch_request (example_env (garbles networkFailure))
                         (example_provider 200) (JStr ''starknet_chainId'') JUndefined)]\<rparr>)"
  using C2_transport_failure_rethrown
      [where e = "example_env (rejects networkFailure)" and w = world0
         and p = "example_provider 200" and meth = "''starknet_chainId''"
         and args = JUndefined and thrown = networkFailure]
    C2_transport_failure_rethrown
      [where e = "example_env (garbles networkFailure)" and w = world0
         and p = "example_provider 200" and meth = "''starknet_chainId''"
         and args = JUndefined and thrown = networkFailure]
  by (simp add: example_env_def rejects_def garbles_def networkFailure_def optChain_def world0_def)

text \<open>
  Claim C2 as stated fails: a failed exchange whose error carries
  \<^verbatim>\<open>response.data = {code: 21, message: "Invalid params"}\<close> makes the call fail with
  exactly the error that a node-reported error \<^verbatim>\<open>{code: 21, message: "Invalid params"}\<close>
  yields, and not with the thrown value.
\<close>

theorem C2_transport_failure_counterexample:
  "fst (fetchEndpoint (example_env (rejects (failureWithData 21 ''Invalid params'')))
          (example_provider 200) ''starknet_chainId'' JUndefined world0)
     = Inl (newError ''21: Invalid params'')
   \<and> fst (fetchEndpoint (example_env (answers (envelope_error 21 ''Invalid params'')))
          (example_provider 200) ''starknet_chainId'' JUndefined world0)
     = Inl (newError ''21: Invalid params'')
   \<and> Inl (newError ''21: Invalid params'') \<noteq>
       (Inl (failureWithData 21 ''Invalid params'') :: js_value result)"
proof -
  have digits: "showInt 21 = ''21''"
    by (simp add: showInt_def showNat.simps digitChar_def)
  show ?thesis
    by (simp add: fetchEndpoint_def fetch_def Let_def errorHandler_def optChain_def
          example_env_def rejects_def answers_def envelope_error_def failureWithData_def
          newError_def digits)
qed

section \<open>Block references\<close>

text \<open>
  Claim C9. A tag resolves to its literal string, a height \<open>n\<close> to
  \<^verbatim>\<open>{block_number: n}\<close>, a hash \<open>h\<close> to \<^verbatim>\<open>{block_hash: h}\<close>, for every height and
  every string \<open>h\<close>, with no failure; \<^verbatim>\<open>getBlockWithTxHashes\<close> sends that value as
  \<^verbatim>\<open>block_id\<close>, \<^verbatim>\<open>pending\<close> when no block is given. Distinct references have
  distinct wire values.
\<close>

theorem C9_block_reference_resolution:
  "Block_identifier (Tag latest) = JStr ''latest''
   \<and> Block_identifier (Tag pending) = JStr ''pending''
   \<and> Block_identifier (Height n) = JObj [(''block_number'', JNum (int n))]
   \<and> Block_identifier (Hash h) = JObj [(''block_hash'', JStr h)]
   \<and> getBlockWithTxHashes e p (Some ref) w =
       fetchEndpoint e p ''starknet_getBlockWithTxHashes''
         (JObj [(''block_id'', Block_identifier ref)]) w
   \<and> getBlockWithTxHashes e p None w =
       fetchEndpoint e p ''starknet_getBlockWithTxHashes'' (JObj [(''block_id'', JStr ''pending'')]) w
   \<and> inj Block_identifier"
proof -
  have "inj Block_identifier"
  proof (rule injI)
    fix a b
    assume "Block_identifier a = Block_identifier b"
    then show "a = b"
      by (cases a; cases b) (auto elim: tagString.elims)
  qed
  then show ?thesis
    by (simp add: getBlockWithTxHashes_def)
qed

section \<open>The retry budget and the wait for a transaction\<close>

text \<open>
  Claim C10. A provider constructed with \<^verbatim>\<open>retries: 0\<close>, or without \<^verbatim>\<open>retries\<close>,
  has the budget 200: it is the provider constructed with \<^verbatim>\<open>retries: 200\<close>, every
  \<^verbatim>\<open>waitForTransaction\<close> on it starts its loop with 200, and against a node that
  refuses every connection it gives up after 201 fetches.
\<close>

theorem C10_zero_retries_replaced_by_default:
  "retries (fst (RpcProvider_constructor e \<lparr>opt_nodeUrl = u, opt_retries = Some 0\<rparr> w)) = 200
   \<and> retries (fst (RpcProvider_constructor e \<lparr>opt_nodeUrl = u, opt_retries = None\<rparr> w)) = 200
   \<and> fst (RpcProvider_constructor e \<lparr>opt_nodeUrl = u, opt_retries = Some 0\<rparr> w) =
       fst (RpcProvider_constructor e \<lparr>opt_nodeUrl = u, opt_retries = Some 200\<rparr> w)
   \<and> waitForTransaction fuel e'
         (fst (RpcProvider_constructor e \<lparr>opt_nodeUrl = u, opt_retries = Some 0\<rparr> w))
         txHash retryInterval w' =
       (case waitLoop fuel e' \<lparr>nodeUrl = u, retries = 200\<rparr> txHash
               (case retryInterval of None \<Rightarrow> 8000 | Some ms \<Rightarrow> ms) 200 False w' of
          None \<Rightarrow> None
        | Some (Inl thrown, w'') \<Rightarrow> Some (Inl thrown, w'')
        | Some (Inr remaining, w'') \<Rightarrow>
            Some (Inr JUndefined,
                  wait (case retryInterval of None \<Rightarrow> 8000 | Some ms \<Rightarrow> ms) w''))
   \<and> waitForTransaction (Suc 200 + fuel) (example_env (rejects networkFailure))
         (fst (RpcProvider_constructor e \<lparr>opt_nodeUrl = u, opt_retries = Some 0\<rparr> w))
         txHash (Some ri) w' =
       Some (Inl (newError ''waitForTransaction timedout with retries''),
             w'\<lparr>trace := trace w' @ concat (replicate (Suc 200)
                [Slept ri,
                 Sent (receiptRequest (example_env (rejects networkFailure))
                         \<lparr>nodeUrl = u, retries = 200\<rparr> txHash)])\<rparr>)"
proof -
  have "\<not> (instanceofError networkFailure
            \<and> array_includes errorStates (getProp networkFailure ''message''))"
    by (simp add: networkFailure_def errorStates_def)
  then have "waitLoop (Suc 200 + fuel) (example_env (rejects networkFailure))
        \<lparr>nodeUrl = u, retries = 200\<rparr> txHash ri (int 200) False w' =
      Some (Inl (newError ''waitForTransaction timedout with retries''),
            w'\<lparr>trace := trace w' @ concat (replicate (Suc 200)
               [Slept ri,
                Sent (receiptRequest (example_env (rejects networkFailure))
                        \<lparr>nodeUrl = u, retries = 200\<rparr> txHash)])\<rparr>)"
    by (rule waitLoop_transient_timeout [OF getTransactionReceipt_rejects])
  then show ?thesis
    by (simp add: RpcProvider_constructor_def waitForTransaction_def Let_def)
qed

text \<open>
  Claim C5. Let a session be still waiting after \<open>k\<close> iterations, whatever is left of
  its budget. If the next fetch returns a receipt whose status is \<^verbatim>\<open>REJECTED\<close> or
  \<^verbatim>\<open>NOT_RECEIVED\<close>, the session ends there: the iteration throws before it reaches
  \<^verbatim>\<open>retries -= 1\<close>, nothing is sent or awaited after that fetch, and the error thrown
  has the status as its message and the receipt as its \<^verbatim>\<open>response\<close>.
\<close>

theorem C5_failure_terminal_reported_immediately:
  assumes "loopStateAfter k e p txHash ri (retries p) w0 = Some (remaining, w)"
    and "fst (getTransactionReceipt e p txHash (wait ri w)) = Inr res"
    and "getProp res ''status'' = JStr status"
    and "status = ''REJECTED'' \<or> status = ''NOT_RECEIVED''"
    and "ri = (case retryInterval of None \<Rightarrow> 8000 | Some ms \<Rightarrow> ms)"
  shows "waitForTransaction (Suc (k + fuel)) e p txHash retryInterval w0 =
           Some (Inl (JError ''Error'' status [(''response'', res)]),
                 w\<lparr>trace := trace w @ [Slept ri, Sent (receiptRequest e p txHash)]\<rparr>)
       \<and> fst (loopBody e p txHash ri remaining w) =
           Throw (JError ''Error'' status [(''response'', res)])
       \<and> getProp (JError ''Error'' status [(''response'', res)]) ''message'' = JStr status
       \<and> getProp (JError ''Error'' status [(''response'', res)]) ''response'' = res"
proof -
  from assms(4) have "status \<in> set errorStates"
    by (auto simp add: errorStates_def)
  with assms(2,3)
  have thrown: "fst (loopBody e p txHash ri remaining w) =
                  Throw (JError ''Error'' status [(''response'', res)])"
    by (rule loopBody_failure)
  have "waitLoop (k + Suc fuel) e p txHash ri (retries p) False w0 =
          waitLoop (Suc fuel) e p txHash ri remaining False w"
    using assms(1) by (rule waitLoop_after)
  also have "\<dots> = Some (Inl (JError ''Error'' status [(''response'', res)]),
                 w\<lparr>trace := trace w @ [Slept ri, Sent (receiptRequest e p txHash)]\<rparr>)"
    using thrown by (simp add: waitLoop_Suc loopBody_world)
  finally show ?thesis
    using thrown assms(5) by (simp add: waitForTransaction_def Let_def)
qed

text \<open>
  C5 in a session whose first fetch returns \<^verbatim>\<open>RECEIVED\<close> and whose second returns
  \<^verbatim>\<open>REJECTED\<close>: two suspensions, two fetches, and the error.
\<close>

theorem C5_failure_terminal_reported_immediately_witness:
  "waitForTransaction (Suc (Suc 0))
     (example_env (answers_in_turn [envelope_result (receipt ''RECEIVED'')]
                     (envelope_result (receipt ''REJECTED''))))
     (example_provider 200) ''0x1'' None world0 =
   Some (Inl (JError ''Error'' ''REJECTED'' [(''response'', receipt ''REJECTED'')]),
         \<lparr>trace =
            [Slept 8000,
             Sent (receiptRequest
                (example_env (answers_in_turn [envelope_result (receipt ''RECEIVED'')]
                                (envelope_result (receipt ''REJECTED''))))
                (example_provider 200) ''0x1''),
             Slept 8000,
             Sent (receiptRequest
                (example_env (answers_in_turn [envelope_result (receipt ''RECEIVED'')]
                                (envelope_result (receipt ''REJECTED''))))
                (example_provider 200) ''0x1'')]\<rparr>)"
proof -
  let ?e = "example_env (answers_in_turn [envelope_result (receipt ''RECEIVED'')]
                           (envelope_result (receipt ''REJECTED'')))"
  let ?p = "example_provider 200"
  let ?w1 = "\<lparr>trace = [Slept 8000, Sent (receiptRequest ?e ?p ''0x1'')]\<rparr>"
  have first: "fst (getTransactionReceipt ?e ?p ''0x1'' (wait 8000 world0)) =
                 Inr (receipt ''RECEIVED'')"
    by (simp add: getTransactionReceipt_def fetchEndpoint_def fetch_def Let_def split_beta
          example_env_def answers_in_turn_def envelope_result_def errorHandler_def wait_def
          world0_def)
  have "fst (loopBody ?e ?p ''0x1'' 8000 200 world0) = Next (200 - 1) False"
    using first
    by (rule loopBody_nonterminal)
       (simp_all add: receipt_def successStates_def errorStates_def)
  then have "loopBody ?e ?p ''0x1'' 8000 200 world0 = (Next 199 False, ?w1)"
    using loopBody_world [of ?e ?p "''0x1''" 8000 200 world0]
    by (simp add: prod_eq_iff world0_def)
  then have waiting: "loopStateAfter (Suc 0) ?e ?p ''0x1'' 8000 (retries ?p) world0 = Some (199, ?w1)"
    by (simp add: example_provider_def)
  have second: "fst (getTransactionReceipt ?e ?p ''0x1'' (wait 8000 ?w1)) =
                  Inr (receipt ''REJECTED'')"
    by (simp add: getTransactionReceipt_def fetchEndpoint_def fetch_def Let_def split_beta
          example_env_def answers_in_turn_def envelope_result_def errorHandler_def wait_def)
  have status: "getProp (receipt ''REJECTED'') ''status'' = JStr ''REJECTED''"
    by (simp add: receipt_def)
  show ?thesis
    using C5_failure_terminal_reported_immediately
      [OF waiting second status, where fuel = 0 and retryInterval = None]
    by simp
qed

text \<open>
  Claim C4, as the code has it. When the first receipt has the status
  \<^verbatim>\<open>ACCEPTED_ON_L1\<close>, \<^verbatim>\<open>ACCEPTED_ON_L2\<close> or \<^verbatim>\<open>PENDING\<close>, the session makes that
  one fetch, suspends exactly once more and resolves with \<^verbatim>\<open>undefined\<close>. The loop
  leaves with its local counter one below the provider's \<^verbatim>\<open>retries\<close>, since the
  iteration that sees the status still runs \<^verbatim>\<open>retries -= 1\<close>.
\<close>

theorem C4_success_one_more_suspension:
  assumes "fst (getTransactionReceipt e p txHash (wait ri w)) = Inr res"
    and "getProp res ''status'' = JStr status"
    and "status = ''ACCEPTED_ON_L1'' \<or> status = ''ACCEPTED_ON_L2'' \<or> status = ''PENDING''"
    and "ri = (case retryInterval of None \<Rightarrow> 8000 | Some ms \<Rightarrow> ms)"
  shows "waitForTransaction (Suc fuel) e p txHash retryInterval w =
           Some (Inr JUndefined,
                 w\<lparr>trace := trace w @ [Slept ri, Sent (receiptRequest e p txHash), Slept ri]\<rparr>)
       \<and> waitLoop (Suc fuel) e p txHash ri (retries p) False w =
           Some (Inr (retries p - 1),
                 w\<lparr>trace := trace w @ [Slept ri, Sent (receiptRequest e p txHash)]\<rparr>)"
proof -
  from assms(2,3) have "array_includes successStates (getProp res ''status'')"
    by (auto simp add: successStates_def)
  with assms(1)
  have "fst (loopBody e p txHash ri (retries p) w) = Next (retries p - 1) True"
    by (rule loopBody_success)
  then have "waitLoop (Suc fuel) e p txHash ri (retries p) False w =
      Some (Inr (retries p - 1),
            w\<lparr>trace := trace w @ [Slept ri, Sent (receiptRequest e p txHash)]\<rparr>)"
    by (simp add: waitLoop_Suc loopBody_world waitLoop.simps)
  with assms(4) show ?thesis
    by (simp add: waitForTransaction_def wait_def Let_def)
qed

text \<open>
  C4 at a node that answers a receipt with status \<^verbatim>\<open>ACCEPTED_ON_L1\<close>, with the
  default interval.
\<close>

theorem C4_success_one_more_suspension_witness:
  "waitForTransaction (Suc 0) (example_env (answers (envelope_result (receipt ''ACCEPTED_ON_L1''))))
     (example_provider 200) ''0x1'' None world0 =
   Some (Inr JUndefined,
         \<lparr>trace =
            [Slept 8000,
             Sent (receiptRequest
                (example_env (answers (envelope_result (receipt ''ACCEPTED_ON_L1''))))
                (example_provider 200) ''0x1''),
             Slept 8000]\<rparr>)"
  using C4_success_one_more_suspension
    [where e = "example_env (answers (envelope_result (receipt ''ACCEPTED_ON_L1'')))"
       and p = "example_provider 200" and txHash = "''0x1''" and ri = 8000 and w = world0
       and res = "receipt ''ACCEPTED_ON_L1''" and status = "''ACCEPTED_ON_L1''"
       and retryInterval = None and fuel = 0,
     OF getTransactionReceipt_answers]
  by (simp add: receipt_def world0_def)

text \<open>
  Claim C4 as stated fails: at a first receipt with status \<^verbatim>\<open>ACCEPTED_ON_L1\<close> the
  session resolves with \<^verbatim>\<open>undefined\<close>, which is not the receipt, and the loop's local
  counter has gone from 200 to 199.
\<close>

theorem C4_success_returns_receipt_counterexample:
  "waitForTransaction (Suc 0) (example_env (answers (envelope_result (receipt ''ACCEPTED_ON_L1''))))
     (example_provider 200) ''0x1'' None world0 =
   Some (Inr JUndefined,
         \<lparr>trace =
            [Slept 8000,
             Sent (receiptRequest
                (example_env (answers (envelope_result (receipt ''ACCEPTED_ON_L1''))))
                (example_provider 200) ''0x1''),
             Slept 8000]\<rparr>)
   \<and> JUndefined \<noteq> receipt ''ACCEPTED_ON_L1''
   \<and> waitLoop (Suc 0) (example_env (answers (envelope_result (receipt ''ACCEPTED_ON_L1''))))
         (example_provider 200) ''0x1'' 8000 200 False world0 =
       Some (Inr 199,
         \<lparr>trace =
            [Slept 8000,
             Sent (receiptRequest
                (example_env (answers (envelope_result (receipt ''ACCEPTED_ON_L1''))))
                (example_provider 200) ''0x1'')]\<rparr>)"
proof -
  let ?e = "example_env (answers (envelope_result (receipt ''ACCEPTED_ON_L1'')))"
  have "fst (loopBody ?e (example_provider 200) ''0x1'' 8000 200 world0) = Next (200 - 1) True"
    by (rule loopBody_success [OF getTransactionReceipt_answers])
       (simp add: receipt_def successStates_def)
  then have "waitLoop (Suc 0) ?e (example_provider 200) ''0x1'' 8000 200 False world0 =
      Some (Inr 199, \<lparr>trace = [Slept 8000, Sent (receiptRequest ?e (example_provider 200) ''0x1'')]\<rparr>)"
    by (simp add: waitLoop_Suc loopBody_world waitLoop.simps world0_def)
  then show ?thesis
    by (simp add: waitForTransaction_def example_provider_def wait_def receipt_def)
qed

text \<open>
  Claim C1 at its failing input. With a budget of 3 and a node whose every receipt has
  the status \<^verbatim>\<open>RECEIVED\<close>, the session has not returned after any number of
  iterations: after four of them (four suspensions, four fetches) the loop goes on with
  the counter at -1. The test \<^verbatim>\<open>retries === 0\<close> sits in the \<^verbatim>\<open>catch\<close> block, which
  a fetch that succeeds never enters; and once the counter is below zero, a fetch that
  fails is not reported either.
\<close>

theorem C1_nonterminal_status_never_exhausts:
  "waitForTransaction fuel (example_env (answers (envelope_result (receipt ''RECEIVED''))))
     (example_provider 3) ''0x1'' None world0 = None
   \<and> loopStateAfter 4 (example_env (answers (envelope_result (receipt ''RECEIVED''))))
         (example_provider 3) ''0x1'' 8000 3 world0 =
       Some (- 1,
         \<lparr>trace = concat (replicate 4
            [Slept 8000,
             Sent (receiptRequest (example_env (answers (envelope_result (receipt ''RECEIVED''))))
                     (example_provider 3) ''0x1'')])\<rparr>)
   \<and> fst (loopBody (example_env (rejects networkFailure)) (example_provider 3) ''0x1'' 8000
              (- 1) w) = Next (- 2) False"
proof -
  let ?e = "example_env (answers (envelope_result (receipt ''RECEIVED'')))"
  have below: "fst (loopBody (example_env (rejects networkFailure)) (example_provider 3) ''0x1''
                      8000 (- 1) w) = Next (- 2) False"
    using loopBody_transient [where remaining = "- 1", OF getTransactionReceipt_rejects]
    by (simp add: networkFailure_def errorStates_def)
  have "waitLoop fuel ?e (example_provider 3) ''0x1'' 8000 3 False world0 = None"
    by (rule waitLoop_nonterminal_forever)
       (simp add: getTransactionReceipt_answers nonTerminal_RECEIVED)
  then have "waitForTransaction fuel ?e (example_provider 3) ''0x1'' None world0 = None"
    by (simp add: waitForTransaction_def example_provider_def)
  moreover
  have "loopStateAfter 4 ?e (example_provider 3) ''0x1'' 8000 3 world0 =
       Some (- 1,
         \<lparr>trace = concat (replicate 4
            [Slept 8000, Sent (receiptRequest ?e (example_provider 3) ''0x1'')])\<rparr>)"
    by (simp add: eval_nat_numeral loopBody_RECEIVED world0_def)
  ultimately show ?thesis
    using below by simp
qed

text \<open>
  Claim C3 at its failing input. An iteration entered with the counter at 0 whose
  receipt has the status \<^verbatim>\<open>RECEIVED\<close> leaves the counter at -1 and reports nothing,
  and the session never returns, whether the counter starts at 0 or the provider was
  constructed with \<^verbatim>\<open>retries: 0\<close>. With the status \<^verbatim>\<open>PENDING\<close> the session
  resolves normally. Only a fetch that fails is reported as a timeout after one attempt.
\<close>

theorem C3_zero_budget_never_reported:
  "loopBody (example_env (answers (envelope_result (receipt ''RECEIVED''))))
      (example_provider 0) ''0x1'' 8000 0 world0 =
     (Next (- 1) False,
      \<lparr>trace = [Slept 8000,
                 Sent (receiptRequest (example_env (answers (envelope_result (receipt ''RECEIVED''))))
                         (example_provider 0) ''0x1'')]\<rparr>)
   \<and> waitForTransaction fuel (example_env (answers (envelope_result (receipt ''RECEIVED''))))
         (example_provider 0) ''0x1'' None world0 = None
   \<and> waitForTransaction fuel (example_env (answers (envelope_result (receipt ''RECEIVED''))))
         (fst (RpcProvider_constructor
                 (example_env (answers (envelope_result (receipt ''RECEIVED''))))
                 \<lparr>opt_nodeUrl = ''http://localhost:9545'', opt_retries = Some 0\<rparr> world0))
         ''0x1'' None w = None
   \<and> waitForTransaction (Suc fuel) (example_env (answers (envelope_result (receipt ''PENDING''))))
         (example_provider 0) ''0x1'' None world0 =
       Some (Inr JUndefined,
         \<lparr>trace = [Slept 8000,
                    Sent (receiptRequest (example_env (answers (envelope_result (receipt ''PENDING''))))
                            (example_provider 0) ''0x1''),
                    Slept 8000]\<rparr>)
   \<and> waitForTransaction (Suc fuel) (example_env (rejects networkFailure))
         (example_provider 0) ''0x1'' None world0 =
       Some (Inl (newError ''waitForTransaction timedout with retries''),
         \<lparr>trace = [Slept 8000,
                    Sent (receiptRequest (example_env (rejects networkFailure))
                            (example_provider 0) ''0x1'')]\<rparr>)"
proof -
  let ?e = "example_env (answers (envelope_result (receipt ''RECEIVED'')))"
  have forever: "waitLoop n ?e p ''0x1'' 8000 r False w = None" for n p r w
    by (rule waitLoop_nonterminal_forever)
       (simp add: getTransactionReceipt_answers nonTerminal_RECEIVED)
  have "fst (loopBody ?e (example_provider 0) ''0x1'' 8000 0 world0) = Next (0 - 1) False"
    using nonTerminal_RECEIVED
    by (intro loopBody_nonterminal [OF getTransactionReceipt_answers])
       (simp_all add: nonTerminal_def)
  then have a: "loopBody ?e (example_provider 0) ''0x1'' 8000 0 world0 =
     (Next (- 1) False,
      \<lparr>trace = [Slept 8000, Sent (receiptRequest ?e (example_provider 0) ''0x1'')]\<rparr>)"
    using loopBody_world [of ?e "example_provider 0" "''0x1''" 8000 0 world0]
    by (simp add: prod_eq_iff world0_def)
  have b: "waitForTransaction fuel ?e p ''0x1'' None w = None" for p w
    by (simp add: waitForTransaction_def forever)
  let ?ep = "example_env (answers (envelope_result (receipt ''PENDING'')))"
  have "fst (loopBody ?ep (example_provider 0) ''0x1'' 8000 0 world0) = Next (0 - 1) True"
    by (rule loopBody_success [OF getTransactionReceipt_answers])
       (simp add: receipt_def successStates_def)
  then have c: "waitForTransaction (Suc fuel) ?ep (example_provider 0) ''0x1'' None world0 =
       Some (Inr JUndefined,
         \<lparr>trace = [Slept 8000, Sent (receiptRequest ?ep (example_provider 0) ''0x1''),
                    Slept 8000]\<rparr>)"
    by (simp add: waitForTransaction_def example_provider_def waitLoop_Suc loopBody_world
          waitLoop.simps wait_def world0_def)
  let ?ef = "example_env (rejects networkFailure)"
  have "fst (loopBody ?ef (example_provider 0) ''0x1'' 8000 0 world0) =
          Throw (newError ''waitForTransaction timedout with retries'')"
    using loopBody_transient [where remaining = 0, OF getTransactionReceipt_rejects]
    by (simp add: networkFailure_def errorStates_def)
  then have d: "waitForTransaction (Suc fuel) ?ef (example_provider 0) ''0x1'' None world0 =
       Some (Inl (newError ''waitForTransaction timedout with retries''),
         \<lparr>trace = [Slept 8000, Sent (receiptRequest ?ef (example_provider 0) ''0x1'')]\<rparr>)"
    by (simp add: waitForTransaction_def example_provider_def waitLoop_Suc loopBody_world
          world0_def)
  from a b c d show ?thesis
    by simp
qed

end
